theory Spec2Isabelle
  imports Complex_Main "HOL-Library.Char_ord" "HOL-Library.List_Lexorder" "HOL-Library.Multiset"
begin

section \<open>The quality-control script \<^verbatim>\<open>QC/run-spotiflow-qc.py\<close>\<close>

text \<open>
  The script has two functions, \<^verbatim>\<open>load_data\<close> and \<^verbatim>\<open>main\<close>. Both act on the file
  system and call library functions (\<^verbatim>\<open>read_coords_csv\<close>, \<^verbatim>\<open>read_coords_csv3d\<close>,
  \<^verbatim>\<open>points_matching_dataset\<close> of \<^verbatim>\<open>spotiflow.utils\<close>, \<^verbatim>\<open>argparse\<close>, \<^verbatim>\<open>pandas\<close>).
  The embedding passes the outside world as a record \<open>env\<close> of functions and returns,
  next to the result, the log of the calls made to the outside world, in the order of
  the calls. An exception is the value \<open>Inl e\<close>.
\<close>

subsection \<open>Strings and paths\<close>

text \<open>\<^verbatim>\<open>s.startswith(p)\<close> and the test that a name matches the pattern \<^verbatim>\<open>*.csv\<close>.\<close>

definition startswith :: "string \<Rightarrow> string \<Rightarrow> bool" where
  "startswith s p = (take (length p) s = p)"

definition endswith :: "string \<Rightarrow> string \<Rightarrow> bool" where
  "endswith s p = (length p \<le> length s \<and> drop (length s - length p) s = p)"

text \<open>
  \<^verbatim>\<open>s.split(sep)[0]\<close> for a non-empty separator: the part of \<open>s\<close> before the first
  occurrence of \<open>sep\<close>, the whole of \<open>s\<close> when \<open>sep\<close> does not occur.
\<close>

fun split_first :: "string \<Rightarrow> string \<Rightarrow> string" where
  "split_first [] sep = []"
| "split_first (c # cs) sep =
     (if startswith (c # cs) sep then [] else c # split_first cs sep)"

text \<open>\<^verbatim>\<open>s.rfind(c)\<close>: the last index of \<open>c\<close> in \<open>s\<close>, or \<open>-1\<close>.\<close>

fun rfind :: "string \<Rightarrow> char \<Rightarrow> int" where
  "rfind [] c = - 1"
| "rfind (x # xs) c =
     (let r = rfind xs c in if 0 \<le> r then r + 1 else if x = c then 0 else - 1)"

text \<open>
  A path of \<^verbatim>\<open>pathlib\<close>, as far as the script uses it: the directory it was globbed
  from and the name of the entry. \<^verbatim>\<open>PurePath.stem\<close> is the name without its last
  suffix; a name whose only dot is the first or the last character has no suffix.
\<close>

datatype path = Path string string

fun name :: "path \<Rightarrow> string" where
  "name (Path d n) = n"

definition stem_of_name :: "string \<Rightarrow> string" where
  "stem_of_name n =
     (let i = rfind n (CHR ''.'')
      in if 0 < i \<and> i < int (length n) - 1 then take (nat i) n else n)"

definition stem :: "path \<Rightarrow> string" where
  "stem f = stem_of_name (name f)"

subsection \<open>Errors, the outside world and its log\<close>

text \<open>
  \<open>FileCountMismatch\<close> and \<open>FilenameMismatch\<close> are the two \<^verbatim>\<open>ValueError\<close>s that
  \<^verbatim>\<open>load_data\<close> raises; \<open>SystemExit\<close> is the exit of \<^verbatim>\<open>argparse\<close> on a rejected
  command line; \<open>LibraryError\<close> is any exception raised inside a library call.
\<close>

datatype error =
    FileCountMismatch nat nat
  | FilenameMismatch
  | SystemExit
  | LibraryError string

datatype event =
    ReadCoordsCsv path
  | ReadCoordsCsv3d path
  | PointsMatchingDataset real bool
  | MkdirParents string
  | ToCsv string

text \<open>
  The outside world. \<open>listing d\<close> is the list of the names of the entries of directory
  \<open>d\<close>, in the order the operating system gives them (empty for a directory that does
  not exist). The readers and the matching engine are library functions whose code is
  not part of the script: they are parameters, and each may raise.
  \<open>float_of_string\<close> is \<^verbatim>\<open>float\<close> on a string (\<open>None\<close> when it raises);
  \<open>data_frame m\<close> is the error, if any, that building the one-row table of line 104
  from the metrics \<open>m\<close> raises; \<open>mkdir_parents f\<close> is the error, if any, of
  \<^verbatim>\<open>f.parent.mkdir(parents=True, exist_ok=True)\<close>, and \<open>to_csv m f\<close> that of writing the
  table of \<open>m\<close> to the file \<open>f\<close>. The log entries \<open>MkdirParents f\<close> and \<open>ToCsv f\<close> record
  these two calls for the output file \<open>f\<close>.
  \<open>'c\<close> is the type of a coordinate array, \<open>'m\<close> the type of the metrics record.
\<close>

record ('c, 'm) env =
  listing :: "string \<Rightarrow> string list"
  read_coords_csv :: "path \<Rightarrow> error + 'c"
  read_coords_csv3d :: "path \<Rightarrow> error + 'c"
  points_matching_dataset :: "'c list \<Rightarrow> 'c list \<Rightarrow> real \<Rightarrow> bool \<Rightarrow> error + 'm"
  float_of_string :: "string \<Rightarrow> real option"
  data_frame :: "'m \<Rightarrow> error option"
  mkdir_parents :: "string \<Rightarrow> error option"
  to_csv :: "'m \<Rightarrow> string \<Rightarrow> error option"

subsection \<open>\<^verbatim>\<open>load_data\<close>\<close>

text \<open>
  \<^verbatim>\<open>sorted(p.glob("*.csv"))\<close>: the entries of the directory whose name ends in
  \<^verbatim>\<open>.csv\<close>, sorted. All the paths have the same parent, so comparing the paths is
  comparing the names, as strings.
\<close>

definition glob_csv :: "('c, 'm) env \<Rightarrow> string \<Rightarrow> path list" where
  "glob_csv env d = map (Path d) (filter (\<lambda>n. endswith n ''.csv'') (listing env d))"

definition sorted_paths :: "path list \<Rightarrow> path list" where
  "sorted_paths fs = sort_key name fs"

text \<open>
  \<^verbatim>\<open>tuple(_read_coords_fn(f) for f in files)\<close>: the files are read in order; the first
  exception ends the loop. Every call of the reader is logged.
\<close>

fun read_all :: "(path \<Rightarrow> error + 'c) \<Rightarrow> (path \<Rightarrow> event) \<Rightarrow> path list
    \<Rightarrow> event list \<times> (error + 'c list)" where
  "read_all rd ev [] = ([], Inr [])"
| "read_all rd ev (f # fs) =
     (case rd f of
        Inl e \<Rightarrow> ([ev f], Inl e)
      | Inr c \<Rightarrow>
          (case read_all rd ev fs of
             (evs, Inl e) \<Rightarrow> (ev f # evs, Inl e)
           | (evs, Inr cs) \<Rightarrow> (ev f # evs, Inr (c # cs))))"

text \<open>The test of lines 48 to 51 on one pair of files.\<close>

definition names_match :: "path \<times> path \<Rightarrow> bool" where
  "names_match p =
     (case p of (gt_f, pred_f) \<Rightarrow>
        startswith (stem gt_f) (split_first (stem pred_f) ''_predict''))"

text \<open>
  Line 56, \<^verbatim>\<open>_read_coords_fn = read_coords_csv3d if is_3d else read_coords_csv\<close>, and
  the entry of the log that a call of the chosen reader leaves.
\<close>

definition read_coords_fn :: "('c, 'm) env \<Rightarrow> bool \<Rightarrow> path \<Rightarrow> error + 'c" where
  "read_coords_fn env is_3d = (if is_3d then read_coords_csv3d env else read_coords_csv env)"

definition read_event :: "bool \<Rightarrow> path \<Rightarrow> event" where
  "read_event is_3d = (if is_3d then ReadCoordsCsv3d else ReadCoordsCsv)"

text \<open>
  The two checks come first, in the order of the source, and raise before any file is
  read. The ground-truth files are read before the prediction files.
\<close>

definition load_data :: "('c, 'm) env \<Rightarrow> string \<Rightarrow> string \<Rightarrow> bool
    \<Rightarrow> event list \<times> (error + 'c list \<times> 'c list)" where
  "load_data env gt_path pred_path is_3d =
     (let gt_files = sorted_paths (glob_csv env gt_path);
          pred_files = sorted_paths (glob_csv env pred_path)
      in if length gt_files \<noteq> length pred_files
         then ([], Inl (FileCountMismatch (length gt_files) (length pred_files)))
         else if \<not> list_all names_match (zip gt_files pred_files)
         then ([], Inl FilenameMismatch)
         else
           (case read_all (read_coords_fn env is_3d) (read_event is_3d) gt_files of
              (log1, Inl e) \<Rightarrow> (log1, Inl e)
            | (log1, Inr gts) \<Rightarrow>
                (case read_all (read_coords_fn env is_3d) (read_event is_3d) pred_files of
                   (log2, Inl e) \<Rightarrow> (log1 @ log2, Inl e)
                 | (log2, Inr preds) \<Rightarrow> (log1 @ log2, Inr (gts, preds)))))"

subsection \<open>\<^verbatim>\<open>main\<close>\<close>

text \<open>
  The command line, after \<^verbatim>\<open>argparse\<close> has recognised the option strings: the list
  of the options given, each with its value as written, in the order given. The four
  constructors are the four \<^verbatim>\<open>add_argument\<close> calls.
\<close>

datatype option_given =
    GroundTruth string
  | Predictions string
  | Outfile string
  | Cutoff string

text \<open>
  The namespace while the options are stored: every destination starts at its default
  (\<^verbatim>\<open>None\<close> where the call gives none, \<^verbatim>\<open>3.0\<close> for the cutoff).
\<close>

record namespace =
  ns_ground_truth :: "string option"
  ns_predictions :: "string option"
  ns_outfile :: "string option"
  ns_cutoff :: real

definition defaults :: namespace where
  "defaults = \<lparr>ns_ground_truth = None, ns_predictions = None, ns_outfile = None,
     ns_cutoff = 3\<rparr>"

text \<open>
  Storing the options: a later occurrence of an option replaces an earlier one; the
  value of \<^verbatim>\<open>--cutoff\<close> goes through \<^verbatim>\<open>float\<close>, and the parser exits when
  \<^verbatim>\<open>float\<close> rejects it.
\<close>

fun store :: "(string \<Rightarrow> real option) \<Rightarrow> option_given list \<Rightarrow> namespace
    \<Rightarrow> error + namespace" where
  "store fl [] ns = Inr ns"
| "store fl (GroundTruth v # rest) ns = store fl rest (ns\<lparr>ns_ground_truth := Some v\<rparr>)"
| "store fl (Predictions v # rest) ns = store fl rest (ns\<lparr>ns_predictions := Some v\<rparr>)"
| "store fl (Outfile v # rest) ns = store fl rest (ns\<lparr>ns_outfile := Some v\<rparr>)"
| "store fl (Cutoff v # rest) ns =
     (case fl v of
        None \<Rightarrow> Inl SystemExit
      | Some c \<Rightarrow> store fl rest (ns\<lparr>ns_cutoff := c\<rparr>))"

text \<open>The parsed arguments: the two required options are present.\<close>

record args =
  ground_truth :: string
  predictions :: string
  outfile :: "string option"
  cutoff :: real

definition parse_args :: "(string \<Rightarrow> real option) \<Rightarrow> option_given list \<Rightarrow> error + args" where
  "parse_args fl given =
     (case store fl given defaults of
        Inl e \<Rightarrow> Inl e
      | Inr ns \<Rightarrow>
          (case (ns_ground_truth ns, ns_predictions ns) of
             (Some g, Some p) \<Rightarrow>
               Inr \<lparr>ground_truth = g, predictions = p, outfile = ns_outfile ns,
                 cutoff = ns_cutoff ns\<rparr>
           | _ \<Rightarrow> Inl SystemExit))"

text \<open>
  Lines 104 to 108: the output file is written only when \<^verbatim>\<open>args.outfile\<close> is not
  \<^verbatim>\<open>None\<close>; the parent directory of the file is created first.
\<close>

definition write_outfile :: "('c, 'm) env \<Rightarrow> 'm \<Rightarrow> string option \<Rightarrow> event list \<times> (error + unit)" where
  "write_outfile env metrics out =
     (case out of
        None \<Rightarrow> ([], Inr ())
      | Some f \<Rightarrow>
          (case mkdir_parents env f of
             Some e \<Rightarrow> ([MkdirParents f], Inl e)
           | None \<Rightarrow>
               (case to_csv env metrics f of
                  Some e \<Rightarrow> ([MkdirParents f, ToCsv f], Inl e)
                | None \<Rightarrow> ([MkdirParents f, ToCsv f], Inr ()))))"

text \<open>
  Lines 96 to 108, for parsed arguments. The call of \<^verbatim>\<open>load_data\<close> passes no
  \<^verbatim>\<open>is_3d\<close>, so the parameter has its default \<^verbatim>\<open>False\<close>; the call of the engine passes
  \<^verbatim>\<open>args.cutoff\<close> and the constant \<^verbatim>\<open>by_image=True\<close>; the table is built from the
  metrics before the output file is looked at. The result carries the metrics record
  that was computed, if any.
\<close>

definition main_body :: "('c, 'm) env \<Rightarrow> args \<Rightarrow> event list \<times> (error + 'm)" where
  "main_body env a =
     (case load_data env (ground_truth a) (predictions a) False of
        (log1, Inl e) \<Rightarrow> (log1, Inl e)
      | (log1, Inr (gts, preds)) \<Rightarrow>
          (let log2 = log1 @ [PointsMatchingDataset (cutoff a) True]
           in case points_matching_dataset env gts preds (cutoff a) True of
                Inl e \<Rightarrow> (log2, Inl e)
              | Inr metrics \<Rightarrow>
                  (case data_frame env metrics of
                     Some e \<Rightarrow> (log2, Inl e)
                   | None \<Rightarrow>
                       (case write_outfile env metrics (outfile a) of
                          (log3, Inl e) \<Rightarrow> (log2 @ log3, Inl e)
                        | (log3, Inr u) \<Rightarrow> (log2 @ log3, Inr metrics)))))"

definition main :: "('c, 'm) env \<Rightarrow> option_given list \<Rightarrow> event list \<times> (error + 'm)" where
  "main env given =
     (case parse_args (float_of_string env) given of
        Inl e \<Rightarrow> ([], Inl e)
      | Inr a \<Rightarrow> main_body env a)"

subsection \<open>The file-name convention in the words of the specification\<close>

text \<open>
  The specification speaks of the prediction file's stem "with any \<^verbatim>\<open>_predict\<close> suffix
  stripped" that "must match" the ground-truth stem. This definition follows those
  words (a suffix is removed from the end, once); it is compared below with what
  \<open>names_match\<close> computes.
\<close>

definition strip_predict_suffix :: "string \<Rightarrow> string" where
  "strip_predict_suffix s =
     (if endswith s ''_predict'' then take (length s - length ''_predict'') s else s)"

definition spec_names_match :: "path \<times> path \<Rightarrow> bool" where
  "spec_names_match p =
     (case p of (gt_f, pred_f) \<Rightarrow> strip_predict_suffix (stem pred_f) = stem gt_f)"

subsection \<open>Options given on a command line\<close>

fun is_Cutoff :: "option_given \<Rightarrow> bool" where
  "is_Cutoff (Cutoff v) = True"
| "is_Cutoff _ = False"

fun is_Outfile :: "option_given \<Rightarrow> bool" where
  "is_Outfile (Outfile v) = True"
| "is_Outfile _ = False"

subsection \<open>Small worlds to run the script in\<close>

text \<open>
  A coordinate array is stood for by the name of the reader and of the file it was
  read from, and the metrics record by the arguments the engine was called with.
\<close>

definition example_float :: "string \<Rightarrow> real option" where
  "example_float s =
     (if s = ''3.0'' then Some 3 else if s = ''1.5'' then Some (3 / 2) else None)"

definition example_env :: "string list \<Rightarrow> string list \<Rightarrow> (string, string list \<times> string list \<times> real \<times> bool) env" where
  "example_env gt_names pred_names =
     \<lparr>listing = (\<lambda>d. if d = ''gt'' then gt_names else if d = ''pred'' then pred_names else []),
      read_coords_csv = (\<lambda>f. Inr (''2d:'' @ name f)),
      read_coords_csv3d = (\<lambda>f. Inr (''3d:'' @ name f)),
      points_matching_dataset = (\<lambda>gts preds c b. Inr (gts, preds, c, b)),
      float_of_string = example_float,
      data_frame = (\<lambda>m. None),
      mkdir_parents = (\<lambda>f. None),
      to_csv = (\<lambda>m f. None)\<rparr>"

text \<open>
  A 3D reader that raises on every file, and an engine that returns for by-image
  aggregation as the engine of \<open>example_env\<close> does and raises for pooled aggregation.
\<close>

definition failing_reader :: "path \<Rightarrow> error + string" where
  "failing_reader f = Inl (LibraryError ''3d'')"


section \<open>The matching engine, as the specification describes it\<close>

text \<open>
  Modelled from the spec: the script imports the engine (\<^verbatim>\<open>points_matching_dataset\<close>)
  from the library \<^verbatim>\<open>spotiflow.utils\<close>; its code is not among the sources. The
  definitions of this section follow sections 3 and 4.1 to 4.3 of the specification.
  A point is the list of its real coordinates; a coordinate set is a list of points.
\<close>

type_synonym point = "real list"

text \<open>
  Modelled from the spec: the Euclidean distance of two points of the same
  dimensionality (section 4.1); the code of the distance evaluator is missing.
\<close>

definition euclid :: "point \<Rightarrow> point \<Rightarrow> real" where
  "euclid p q = sqrt (sum_list (map (\<lambda>ab. (fst ab - snd ab)\<^sup>2) (zip p q)))"

text \<open>
  Modelled from the spec: "both sets share the same dimensionality; mismatched
  dimensionality is a fatal configuration error" (sections 4.1 and 7); the code that
  checks the arrays is missing.
\<close>

definition uniform_dim :: "point list \<Rightarrow> bool" where
  "uniform_dim ps =
     (case ps of [] \<Rightarrow> True | p # qs \<Rightarrow> list_all (\<lambda>q. length q = length p) qs)"

datatype engine_error = ConfigurationError

text \<open>
  Modelled from the spec: the contract \<^verbatim>\<open>distances(gt, pred)\<close> of section 4.1, a matrix
  with one row for each ground-truth point and one column for each predicted point;
  the code of the distance evaluator is missing.
\<close>

definition distances :: "point list \<Rightarrow> point list \<Rightarrow> engine_error + real list list" where
  "distances gt pred =
     (if uniform_dim (gt @ pred) then Inr (map (\<lambda>g. map (euclid g) pred) gt)
      else Inl ConfigurationError)"

text \<open>
  Modelled from the spec: the cost matrix of section 4.2, where an entry at or above
  the cutoff is replaced by the sentinel (\<open>None\<close>); the code of the matcher is missing.
\<close>

definition cost_matrix :: "real list list \<Rightarrow> real \<Rightarrow> real option list list" where
  "cost_matrix D cutoff_distance = map (map (\<lambda>d. if d < cutoff_distance then Some d else None)) D"

text \<open>
  Modelled from the spec: the pairs that survive the last step of section 4.2, "discard
  any assigned pair whose underlying distance is at or above the cutoff"; a pair outside
  the matrix is an assignment to a dummy node and has no underlying distance. The code
  of the matcher is missing.
\<close>

definition matchable :: "real list list \<Rightarrow> real \<Rightarrow> nat \<times> nat \<Rightarrow> bool" where
  "matchable D cutoff_distance ij =
     (case ij of (i, j) \<Rightarrow> i < length D \<and> j < length (D ! i) \<and> D ! i ! j < cutoff_distance)"

text \<open>
  Modelled from the spec: the matcher of section 4.2. The specification names the
  assignment problem to solve and leaves the solver open, so the solver is a parameter:
  any function from the cost matrix to a list of assigned index pairs. The code of the
  matcher is missing.
\<close>

definition matcher :: "(real option list list \<Rightarrow> (nat \<times> nat) list) \<Rightarrow> real list list \<Rightarrow> real
    \<Rightarrow> (nat \<times> nat) list" where
  "matcher solve D cutoff_distance = filter (matchable D cutoff_distance) (solve (cost_matrix D cutoff_distance))"

record sample_metrics =
  tp :: int
  fn :: int
  fp :: int
  precision :: real
  recall :: real
  f1 :: real
  mean_distance :: "real option"

text \<open>
  Modelled from the spec: the contract \<^verbatim>\<open>metrics(gt_count, pred_count, matching,
  distances)\<close> of section 4.3, with its fallback values for a zero denominator; an
  undefined mean distance is \<open>None\<close>. The code of the calculator is missing.
\<close>

definition metrics :: "nat \<Rightarrow> nat \<Rightarrow> (nat \<times> nat) list \<Rightarrow> real list list \<Rightarrow> sample_metrics" where
  "metrics gt_count pred_count matching D =
     (let TP = int (length matching);
          P = (if 0 < pred_count then real_of_int TP / real pred_count
               else if gt_count = 0 then 1 else 0);
          R = (if 0 < gt_count then real_of_int TP / real gt_count
               else if pred_count = 0 then 1 else 0)
      in \<lparr>tp = TP,
          fn = int gt_count - TP,
          fp = int pred_count - TP,
          precision = P,
          recall = R,
          f1 = (if 0 < P + R then 2 * P * R / (P + R) else 0),
          mean_distance =
            (if TP = 0 then None
             else Some (sum_list (map (\<lambda>ij. D ! fst ij ! snd ij) matching) / real_of_int TP))\<rparr>)"

text \<open>
  Modelled from the spec: the pipeline of one sample (section 2: distance evaluator,
  then matcher, then calculator); it returns the matching next to the metrics. The
  code of the pipeline is missing.
\<close>

definition sample_pipeline :: "(real option list list \<Rightarrow> (nat \<times> nat) list) \<Rightarrow> real
    \<Rightarrow> point list \<Rightarrow> point list \<Rightarrow> engine_error + (nat \<times> nat) list \<times> sample_metrics" where
  "sample_pipeline solve cutoff_distance gt pred =
     (case distances gt pred of
        Inl e \<Rightarrow> Inl e
      | Inr D \<Rightarrow>
          (let m = matcher solve D cutoff_distance
           in Inr (m, metrics (length gt) (length pred) m D)))"

text \<open>
  A solver to run the pipeline with: it assigns point 0 to point 0 and point 1 to
  point 1, whatever the costs. The pipeline discards the pairs that are not edges.
\<close>

definition example_solver :: "real option list list \<Rightarrow> (nat \<times> nat) list" where
  "example_solver C = [(0, 0), (1, 1)]"

section \<open>Properties of the script\<close>

subsection \<open>Auxiliary facts\<close>

lemma length_sorted_paths: "length (sorted_paths fs) = length fs"
  by (simp add: sorted_paths_def)

lemma mset_sorted_paths: "mset (sorted_paths fs) = mset fs"
  by (simp add: sorted_paths_def)

lemma sorted_sorted_paths: "sorted (map name (sorted_paths fs))"
  by (simp add: sorted_paths_def)

lemma read_all_events: "set (fst (read_all rd ev fs)) \<subseteq> ev ` set fs"
  by (induction fs) (auto split: sum.splits prod.splits)

lemma read_all_ok:
  "list_all (\<lambda>f. \<not> isl (rd f)) fs \<Longrightarrow>
     read_all rd ev fs = (map ev fs, Inr (map (\<lambda>f. projr (rd f)) fs))"
  by (induction fs) (auto split: sum.splits prod.splits)

lemma read_all_Inr:
  "read_all rd ev fs = (evs, Inr cs) \<Longrightarrow> evs = map ev fs \<and> map rd fs = map Inr cs"
  by (induction fs arbitrary: evs cs) (auto split: sum.splits prod.splits)

lemma load_data_count:
  "length (glob_csv env g) \<noteq> length (glob_csv env p) \<Longrightarrow>
     load_data env g p is_3d =
       ([], Inl (FileCountMismatch (length (glob_csv env g)) (length (glob_csv env p))))"
  by (simp add: load_data_def Let_def length_sorted_paths)

lemma load_data_names:
  "length (glob_csv env g) = length (glob_csv env p) \<Longrightarrow>
   \<not> list_all names_match (zip (sorted_paths (glob_csv env g)) (sorted_paths (glob_csv env p))) \<Longrightarrow>
     load_data env g p is_3d = ([], Inl FilenameMismatch)"
  by (simp add: load_data_def Let_def length_sorted_paths)

lemma load_data_valid:
  "length (glob_csv env g) = length (glob_csv env p) \<Longrightarrow>
   list_all names_match (zip (sorted_paths (glob_csv env g)) (sorted_paths (glob_csv env p))) \<Longrightarrow>
     load_data env g p is_3d =
       (case read_all (read_coords_fn env is_3d) (read_event is_3d) (sorted_paths (glob_csv env g)) of
          (log1, Inl e) \<Rightarrow> (log1, Inl e)
        | (log1, Inr gts) \<Rightarrow>
            (case read_all (read_coords_fn env is_3d) (read_event is_3d) (sorted_paths (glob_csv env p)) of
               (log2, Inl e) \<Rightarrow> (log1 @ log2, Inl e)
             | (log2, Inr preds) \<Rightarrow> (log1 @ log2, Inr (gts, preds))))"
  by (simp add: load_data_def Let_def length_sorted_paths)

lemma load_data_Inr:
  assumes "snd (load_data env g p is_3d) = Inr r"
  shows "length (glob_csv env g) = length (glob_csv env p)"
    and "list_all names_match (zip (sorted_paths (glob_csv env g)) (sorted_paths (glob_csv env p)))"
  using assms by (auto simp: load_data_def Let_def length_sorted_paths split: if_splits)

lemma load_data_events:
  "set (fst (load_data env g p is_3d)) \<subseteq> range (read_event is_3d)"
proof -
  have a: "\<And>fs. set (fst (read_all (read_coords_fn env is_3d) (read_event is_3d) fs))
      \<subseteq> range (read_event is_3d)"
    using read_all_events [of "read_coords_fn env is_3d" "read_event is_3d"] by blast
  show ?thesis
    using a [of "sorted_paths (glob_csv env g)"] a [of "sorted_paths (glob_csv env p)"]
    by (auto simp: load_data_def Let_def split: prod.splits sum.splits)
qed

lemma write_outfile_events:
  "set (fst (write_outfile env m out)) \<subseteq> (case out of None \<Rightarrow> {} | Some f \<Rightarrow> {MkdirParents f, ToCsv f})"
  by (auto simp: write_outfile_def split: option.splits)

lemma main_body_events:
  "set (fst (main_body env a)) \<subseteq>
     range ReadCoordsCsv \<union> {PointsMatchingDataset (cutoff a) True}
       \<union> (case outfile a of None \<Rightarrow> {} | Some f \<Rightarrow> {MkdirParents f, ToCsv f})"
proof -
  have l: "set (fst (load_data env (ground_truth a) (predictions a) False)) \<subseteq> range ReadCoordsCsv"
    using load_data_events [of env "ground_truth a" "predictions a" False]
    by (simp add: read_event_def)
  have w: "\<And>m. set (fst (write_outfile env m (outfile a)))
      \<subseteq> (case outfile a of None \<Rightarrow> {} | Some f \<Rightarrow> {MkdirParents f, ToCsv f})"
    by (rule write_outfile_events)
  show ?thesis
  proof (cases "load_data env (ground_truth a) (predictions a) False")
    case (Pair log1 r)
    show ?thesis
    proof (cases r)
      case (Inl e)
      with Pair l show ?thesis by (auto simp: main_body_def)
    next
      case (Inr gp)
      obtain gts preds where gp: "gp = (gts, preds)" by (cases gp)
      show ?thesis
      proof (cases "points_matching_dataset env gts preds (cutoff a) True")
        case (Inl e)
        with Pair Inr gp l show ?thesis by (auto simp: main_body_def Let_def)
      next
        case m: (Inr m)
        obtain log3 u where wo: "write_outfile env m (outfile a) = (log3, u)"
          by (cases "write_outfile env m (outfile a)")
        with w [of m] have "set log3 \<subseteq> (case outfile a of None \<Rightarrow> {} | Some f \<Rightarrow> {MkdirParents f, ToCsv f})"
          by simp
        with Pair Inr gp l m wo show ?thesis
          by (cases u; cases "data_frame env m") (auto simp: main_body_def Let_def)
      qed
    qed
  qed
qed

lemma main_events:
  "set (fst (main env given)) \<subseteq>
     (case parse_args (float_of_string env) given of
        Inl e \<Rightarrow> {}
      | Inr a \<Rightarrow> range ReadCoordsCsv \<union> {PointsMatchingDataset (cutoff a) True}
          \<union> (case outfile a of None \<Rightarrow> {} | Some f \<Rightarrow> {MkdirParents f, ToCsv f}))"
  using main_body_events by (auto simp: main_def split: sum.splits)

lemma store_cutoff:
  "\<not> list_ex is_Cutoff given \<Longrightarrow> store fl given ns = Inr ns' \<Longrightarrow> ns_cutoff ns' = ns_cutoff ns"
proof (induction given arbitrary: ns)
  case Nil
  then show ?case by simp
next
  case (Cons x xs)
  then show ?case by (cases x) auto
qed

lemma store_outfile:
  "\<not> list_ex is_Outfile given \<Longrightarrow> store fl given ns = Inr ns' \<Longrightarrow> ns_outfile ns' = ns_outfile ns"
proof (induction given arbitrary: ns)
  case Nil
  then show ?case by simp
next
  case (Cons x xs)
  then show ?case by (cases x) (auto split: option.splits)
qed

lemma parse_args_cutoff:
  "\<not> list_ex is_Cutoff given \<Longrightarrow> parse_args fl given = Inr a \<Longrightarrow> cutoff a = 3"
  using store_cutoff [of given fl defaults]
  by (auto simp: parse_args_def defaults_def split: sum.splits option.splits)

lemma parse_args_outfile:
  "\<not> list_ex is_Outfile given \<Longrightarrow> parse_args fl given = Inr a \<Longrightarrow> outfile a = None"
  using store_outfile [of given fl defaults]
  by (auto simp: parse_args_def defaults_def split: sum.splits option.splits)

lemma glob_csv_reader3d: "glob_csv (env\<lparr>read_coords_csv3d := r\<rparr>) d = glob_csv env d"
  by (simp add: glob_csv_def)

lemma write_outfile_reader3d:
  "write_outfile (env\<lparr>read_coords_csv3d := r\<rparr>) m out = write_outfile env m out"
  by (simp add: write_outfile_def split: option.splits)


lemma store_append_cutoff:
  "fl s = Some c \<Longrightarrow>
     store fl (given @ [Cutoff s]) ns =
       (case store fl given ns of Inl e \<Rightarrow> Inl e | Inr ns' \<Rightarrow> Inr (ns'\<lparr>ns_cutoff := c\<rparr>))"
proof (induction given arbitrary: ns)
  case Nil
  then show ?case by simp
next
  case (Cons x xs)
  then show ?case by (cases x) (auto split: option.splits)
qed

lemma parse_args_append_default:
  assumes "\<not> list_ex is_Cutoff given" and "fl s = Some 3"
  shows "parse_args fl (given @ [Cutoff s]) = parse_args fl given"
proof (cases "store fl given defaults")
  case (Inl e)
  then show ?thesis
    using store_append_cutoff [of fl s 3 given defaults] assms(2) by (simp add: parse_args_def)
next
  case (Inr ns')
  with store_cutoff [OF assms(1) Inr] have "ns_cutoff ns' = 3" by (simp add: defaults_def)
  then have "ns'\<lparr>ns_cutoff := 3\<rparr> = ns'" by simp
  with Inr show ?thesis
    using store_append_cutoff [of fl s 3 given defaults] assms(2) by (simp add: parse_args_def)
qed

subsection \<open>The count check\<close>

text \<open>
  Claim C3. When the two directories hold different numbers of CSV files, the loader
  raises the count error with an empty log, so no coordinate file has been read, for
  either value of the 3D flag; the entry point called on these directories ends with
  the same error and the same empty log: the engine is not called and nothing is
  written.
\<close>

theorem count_mismatch_aborts:
  assumes "length (glob_csv env gt_path) \<noteq> length (glob_csv env pred_path)"
  shows "load_data env gt_path pred_path is_3d =
      ([], Inl (FileCountMismatch (length (glob_csv env gt_path)) (length (glob_csv env pred_path))))
    \<and> main_body env \<lparr>ground_truth = gt_path, predictions = pred_path, outfile = out, cutoff = c\<rparr> =
      ([], Inl (FileCountMismatch (length (glob_csv env gt_path)) (length (glob_csv env pred_path))))"
  using assms by (simp add: load_data_count main_body_def)

theorem count_mismatch_aborts_witness:
  "length (glob_csv (example_env [''img10.csv'', ''x.csv''] [''img1_predict.csv'']) ''gt'')
     \<noteq> length (glob_csv (example_env [''img10.csv'', ''x.csv''] [''img1_predict.csv'']) ''pred'')
   \<and> load_data (example_env [''img10.csv'', ''x.csv''] [''img1_predict.csv'']) ''gt'' ''pred'' False =
       ([], Inl (FileCountMismatch 2 1))
   \<and> main_body (example_env [''img10.csv'', ''x.csv''] [''img1_predict.csv''])
        \<lparr>ground_truth = ''gt'', predictions = ''pred'', outfile = Some ''out/m.csv'', cutoff = 3\<rparr> =
       ([], Inl (FileCountMismatch 2 1))"
proof -
  let ?E = "example_env [''img10.csv'', ''x.csv''] [''img1_predict.csv'']"
  have g: "length (glob_csv ?E ''gt'') = 2" by code_simp
  have p: "length (glob_csv ?E ''pred'') = 1" by code_simp
  have h: "length (glob_csv ?E ''gt'') \<noteq> length (glob_csv ?E ''pred'')"
    by (simp add: g p)
  show ?thesis
    using h count_mismatch_aborts [OF h, of False "Some ''out/m.csv''" 3] by (simp add: g p)
qed

subsection \<open>Empty directories\<close>

text \<open>
  Claim C10. When neither directory holds a CSV file, the loader returns two empty
  tuples and raises nothing.
\<close>

theorem empty_directories_load:
  assumes "glob_csv env gt_path = []" and "glob_csv env pred_path = []"
  shows "load_data env gt_path pred_path is_3d = ([], Inr ([], []))"
  using assms by (simp add: load_data_def sorted_paths_def)

theorem empty_directories_load_witness:
  "glob_csv (example_env [''notes.txt''] []) ''gt'' = []
   \<and> glob_csv (example_env [''notes.txt''] []) ''pred'' = []
   \<and> load_data (example_env [''notes.txt''] []) ''gt'' ''pred'' False = ([], Inr ([], []))"
proof -
  let ?E = "example_env [''notes.txt''] []"
  have g: "glob_csv ?E ''gt'' = []" by code_simp
  have p: "glob_csv ?E ''pred'' = []" by code_simp
  show ?thesis using g p empty_directories_load [OF g p, of False] by simp
qed

subsection \<open>Index alignment\<close>

text \<open>
  Claim C6. When both checks pass and the reader returns an array for every CSV file
  of the two directories, the loader returns two tuples of the same length, the number
  of ground-truth CSV files; the array at index \<open>i\<close> of the first is what the reader
  returns on the \<open>i\<close>-th ground-truth file and the array at index \<open>i\<close> of the second what
  it returns on the \<open>i\<close>-th prediction file, where each list of files is the directory's
  CSV files rearranged so that the names ascend in the lexicographic order of strings.
\<close>

theorem load_data_index_aligned:
  assumes "length (glob_csv env gt_path) = length (glob_csv env pred_path)"
    and "list_all names_match
           (zip (sorted_paths (glob_csv env gt_path)) (sorted_paths (glob_csv env pred_path)))"
    and "list_all (\<lambda>f. \<not> isl (read_coords_fn env is_3d f))
           (glob_csv env gt_path @ glob_csv env pred_path)"
  shows "\<exists>gts preds.
      load_data env gt_path pred_path is_3d =
        (map (read_event is_3d)
           (sorted_paths (glob_csv env gt_path) @ sorted_paths (glob_csv env pred_path)),
         Inr (gts, preds))
    \<and> length gts = length preds
    \<and> length gts = length (glob_csv env gt_path)
    \<and> (\<forall>i<length gts.
          read_coords_fn env is_3d (sorted_paths (glob_csv env gt_path) ! i) = Inr (gts ! i)
        \<and> read_coords_fn env is_3d (sorted_paths (glob_csv env pred_path) ! i) = Inr (preds ! i))
    \<and> sorted (map name (sorted_paths (glob_csv env gt_path)))
    \<and> sorted (map name (sorted_paths (glob_csv env pred_path)))
    \<and> mset (sorted_paths (glob_csv env gt_path)) = mset (glob_csv env gt_path)
    \<and> mset (sorted_paths (glob_csv env pred_path)) = mset (glob_csv env pred_path)"
proof -
  let ?rd = "read_coords_fn env is_3d"
  let ?G = "sorted_paths (glob_csv env gt_path)"
  let ?P = "sorted_paths (glob_csv env pred_path)"
  have okG: "list_all (\<lambda>f. \<not> isl (?rd f)) ?G"
    using assms(3) by (simp add: list_all_iff sorted_paths_def)
  have okP: "list_all (\<lambda>f. \<not> isl (?rd f)) ?P"
    using assms(3) by (simp add: list_all_iff sorted_paths_def)
  have ld: "load_data env gt_path pred_path is_3d =
      (map (read_event is_3d) (?G @ ?P),
       Inr (map (\<lambda>f. projr (?rd f)) ?G, map (\<lambda>f. projr (?rd f)) ?P))"
    by (simp add: load_data_valid [OF assms(1,2)] read_all_ok [OF okG] read_all_ok [OF okP])
  have nG: "\<forall>i<length ?G. ?rd (?G ! i) = Inr (projr (?rd (?G ! i)))"
    using okG by (simp add: list_all_length)
  have nP: "\<forall>i<length ?P. ?rd (?P ! i) = Inr (projr (?rd (?P ! i)))"
    using okP by (simp add: list_all_length)
  have len: "length ?G = length ?P"
    using assms(1) by (simp add: length_sorted_paths)
  show ?thesis
    using ld nG nP len
    by (simp add: length_sorted_paths sorted_sorted_paths mset_sorted_paths)
qed

theorem load_data_index_aligned_witness:
  "length (glob_csv (example_env [''b.csv'', ''a.csv'', ''notes.txt''] [''a_predict.csv'', ''b_predict.csv'']) ''gt'')
     = length (glob_csv (example_env [''b.csv'', ''a.csv'', ''notes.txt''] [''a_predict.csv'', ''b_predict.csv'']) ''pred'')
   \<and> sorted_paths (glob_csv (example_env [''b.csv'', ''a.csv'', ''notes.txt''] [''a_predict.csv'', ''b_predict.csv'']) ''gt'')
       = [Path ''gt'' ''a.csv'', Path ''gt'' ''b.csv'']
   \<and> sorted_paths (glob_csv (example_env [''b.csv'', ''a.csv'', ''notes.txt''] [''a_predict.csv'', ''b_predict.csv'']) ''pred'')
       = [Path ''pred'' ''a_predict.csv'', Path ''pred'' ''b_predict.csv'']
   \<and> load_data (example_env [''b.csv'', ''a.csv'', ''notes.txt''] [''a_predict.csv'', ''b_predict.csv'']) ''gt'' ''pred'' False
       = ([ReadCoordsCsv (Path ''gt'' ''a.csv''), ReadCoordsCsv (Path ''gt'' ''b.csv''),
           ReadCoordsCsv (Path ''pred'' ''a_predict.csv''), ReadCoordsCsv (Path ''pred'' ''b_predict.csv'')],
          Inr ([''2d:a.csv'', ''2d:b.csv''], [''2d:a_predict.csv'', ''2d:b_predict.csv'']))"
proof -
  let ?E = "example_env [''b.csv'', ''a.csv'', ''notes.txt''] [''a_predict.csv'', ''b_predict.csv'']"
  have h1: "length (glob_csv ?E ''gt'') = length (glob_csv ?E ''pred'')" by code_simp
  have h2: "list_all names_match
      (zip (sorted_paths (glob_csv ?E ''gt'')) (sorted_paths (glob_csv ?E ''pred'')))"
    by code_simp
  have h3: "list_all (\<lambda>f. \<not> isl (read_coords_fn ?E False f))
      (glob_csv ?E ''gt'' @ glob_csv ?E ''pred'')"
    by code_simp
  have g: "sorted_paths (glob_csv ?E ''gt'') = [Path ''gt'' ''a.csv'', Path ''gt'' ''b.csv'']"
    by code_simp
  have p: "sorted_paths (glob_csv ?E ''pred'')
      = [Path ''pred'' ''a_predict.csv'', Path ''pred'' ''b_predict.csv'']"
    by code_simp
  have c: "load_data ?E ''gt'' ''pred'' False
      = ([ReadCoordsCsv (Path ''gt'' ''a.csv''), ReadCoordsCsv (Path ''gt'' ''b.csv''),
          ReadCoordsCsv (Path ''pred'' ''a_predict.csv''), ReadCoordsCsv (Path ''pred'' ''b_predict.csv'')],
         Inr ([''2d:a.csv'', ''2d:b.csv''], [''2d:a_predict.csv'', ''2d:b_predict.csv'']))"
    by code_simp
  show ?thesis
    using load_data_index_aligned [OF h1 h2 h3] h1 g p c by simp
qed

subsection \<open>The file-name check\<close>

text \<open>
  Claim C2, as the code has it. The check of the loader is a prefix test: for every
  aligned pair of the sorted file lists of a call that returns, the part of the
  prediction stem before the first occurrence of \<^verbatim>\<open>_predict\<close> is a prefix of the
  ground-truth stem. When the two lists have the same length and this prefix test
  fails for some aligned pair, the loader raises the file-name error, with an empty
  log: no coordinate file is read and no data is returned.
\<close>

theorem load_data_checks_prefix:
  "(snd (load_data env gt_path pred_path is_3d) = Inr r \<longrightarrow>
      length (sorted_paths (glob_csv env gt_path)) = length (sorted_paths (glob_csv env pred_path))
    \<and> (\<forall>i<length (sorted_paths (glob_csv env gt_path)).
          startswith (stem (sorted_paths (glob_csv env gt_path) ! i))
            (split_first (stem (sorted_paths (glob_csv env pred_path) ! i)) ''_predict'')))
   \<and> (length (sorted_paths (glob_csv env gt_path)) = length (sorted_paths (glob_csv env pred_path))
      \<and> (\<exists>i<length (sorted_paths (glob_csv env gt_path)).
            \<not> startswith (stem (sorted_paths (glob_csv env gt_path) ! i))
              (split_first (stem (sorted_paths (glob_csv env pred_path) ! i)) ''_predict''))
      \<longrightarrow> load_data env gt_path pred_path is_3d = ([], Inl FilenameMismatch))"
proof -
  let ?G = "sorted_paths (glob_csv env gt_path)"
  let ?P = "sorted_paths (glob_csv env pred_path)"
  have eq: "length ?G = length ?P \<Longrightarrow>
      list_all names_match (zip ?G ?P) =
        (\<forall>i<length ?G. startswith (stem (?G ! i)) (split_first (stem (?P ! i)) ''_predict''))"
    by (simp add: list_all_length names_match_def)
  have a: "snd (load_data env gt_path pred_path is_3d) = Inr r \<Longrightarrow>
      length ?G = length ?P \<and> list_all names_match (zip ?G ?P)"
    using load_data_Inr [of env gt_path pred_path is_3d r] by (simp add: length_sorted_paths)
  have b: "length ?G = length ?P \<Longrightarrow> \<not> list_all names_match (zip ?G ?P) \<Longrightarrow>
      load_data env gt_path pred_path is_3d = ([], Inl FilenameMismatch)"
    using load_data_names [of env gt_path pred_path is_3d] by (simp add: length_sorted_paths)
  show ?thesis using a b eq by blast
qed

theorem load_data_checks_prefix_witness:
  "snd (load_data (example_env [''b.csv'', ''a.csv'', ''notes.txt''] [''a_predict.csv'', ''b_predict.csv''])
          ''gt'' ''pred'' False)
     = Inr ([''2d:a.csv'', ''2d:b.csv''], [''2d:a_predict.csv'', ''2d:b_predict.csv''])
   \<and> startswith (stem (Path ''gt'' ''a.csv'')) (split_first (stem (Path ''pred'' ''a_predict.csv'')) ''_predict'')
   \<and> startswith (stem (Path ''gt'' ''b.csv'')) (split_first (stem (Path ''pred'' ''b_predict.csv'')) ''_predict'')
   \<and> sorted_paths (glob_csv (example_env [''cell.csv''] [''nucleus_predict.csv'']) ''gt'') = [Path ''gt'' ''cell.csv'']
   \<and> sorted_paths (glob_csv (example_env [''cell.csv''] [''nucleus_predict.csv'']) ''pred'')
       = [Path ''pred'' ''nucleus_predict.csv'']
   \<and> \<not> startswith (stem (Path ''gt'' ''cell.csv''))
         (split_first (stem (Path ''pred'' ''nucleus_predict.csv'')) ''_predict'')
   \<and> load_data (example_env [''cell.csv''] [''nucleus_predict.csv'']) ''gt'' ''pred'' False
       = ([], Inl FilenameMismatch)"
proof -
  let ?E = "example_env [''b.csv'', ''a.csv'', ''notes.txt''] [''a_predict.csv'', ''b_predict.csv'']"
  let ?F = "example_env [''cell.csv''] [''nucleus_predict.csv'']"
  have r: "snd (load_data ?E ''gt'' ''pred'' False)
      = Inr ([''2d:a.csv'', ''2d:b.csv''], [''2d:a_predict.csv'', ''2d:b_predict.csv''])"
    by code_simp
  have g: "sorted_paths (glob_csv ?E ''gt'') = [Path ''gt'' ''a.csv'', Path ''gt'' ''b.csv'']"
    by code_simp
  have p: "sorted_paths (glob_csv ?E ''pred'')
      = [Path ''pred'' ''a_predict.csv'', Path ''pred'' ''b_predict.csv'']"
    by code_simp
  have fg: "sorted_paths (glob_csv ?F ''gt'') = [Path ''gt'' ''cell.csv'']" by code_simp
  have fp: "sorted_paths (glob_csv ?F ''pred'') = [Path ''pred'' ''nucleus_predict.csv'']"
    by code_simp
  have n: "\<not> startswith (stem (Path ''gt'' ''cell.csv''))
      (split_first (stem (Path ''pred'' ''nucleus_predict.csv'')) ''_predict'')"
    by code_simp
  have acc: "\<forall>i<2. startswith (stem ([Path ''gt'' ''a.csv'', Path ''gt'' ''b.csv''] ! i))
      (split_first (stem ([Path ''pred'' ''a_predict.csv'', Path ''pred'' ''b_predict.csv''] ! i)) ''_predict'')"
    using load_data_checks_prefix [of ?E "''gt''" "''pred''" False
        "([''2d:a.csv'', ''2d:b.csv''], [''2d:a_predict.csv'', ''2d:b_predict.csv''])"] r
    by (simp add: g p)
  have a0: "startswith (stem (Path ''gt'' ''a.csv'')) (split_first (stem (Path ''pred'' ''a_predict.csv'')) ''_predict'')"
    using acc [rule_format, of 0] by simp
  have a1: "startswith (stem (Path ''gt'' ''b.csv'')) (split_first (stem (Path ''pred'' ''b_predict.csv'')) ''_predict'')"
    using acc [rule_format, of 1] by simp
  have rej: "load_data ?F ''gt'' ''pred'' False = ([], Inl FilenameMismatch)"
    using load_data_checks_prefix [of ?F "''gt''" "''pred''" False "([], [])"] n
    by (simp add: fg fp)
  show ?thesis using r a0 a1 fg fp n rej by simp
qed

text \<open>
  The prefix test accepts a pair whose stems differ after the suffix is stripped:
  \<^verbatim>\<open>img10.csv\<close> against \<^verbatim>\<open>img1_predict.csv\<close>.
\<close>

theorem prefix_collision_counterexample:
  "load_data (example_env [''img10.csv''] [''img1_predict.csv'']) ''gt'' ''pred'' False
     = ([ReadCoordsCsv (Path ''gt'' ''img10.csv''), ReadCoordsCsv (Path ''pred'' ''img1_predict.csv'')],
        Inr ([''2d:img10.csv''], [''2d:img1_predict.csv'']))
   \<and> stem (Path ''gt'' ''img10.csv'') = ''img10''
   \<and> stem (Path ''pred'' ''img1_predict.csv'') = ''img1_predict''
   \<and> strip_predict_suffix (stem (Path ''pred'' ''img1_predict.csv'')) = ''img1''
   \<and> \<not> spec_names_match (Path ''gt'' ''img10.csv'', Path ''pred'' ''img1_predict.csv'')"
  by code_simp

subsection \<open>The reader used by the entry point\<close>

text \<open>
  Claim C8. The entry point calls \<open>load_data\<close> with the 3D flag at its default
  \<open>False\<close>, and with that flag the loader applies the 2D reader to every file.
  Whatever the command line and the outside world: replacing the 3D reader of the world
  by any other function changes neither the result nor the log of the entry point, nor
  those of \<open>load_data\<close> called with the flag \<open>False\<close>; the arrays such a call returns are
  the results of the 2D reader on the sorted files, and its log is the calls of the 2D
  reader on them; the log of the entry point holds no call of the 3D reader and starts
  with the log of \<open>load_data\<close> called with the flag \<open>False\<close>.
\<close>

theorem main_reads_2d_only:
  "main (env\<lparr>read_coords_csv3d := r\<rparr>) given = main env given
   \<and> main_body (env\<lparr>read_coords_csv3d := r\<rparr>) a = main_body env a
   \<and> load_data (env\<lparr>read_coords_csv3d := r\<rparr>) g p False = load_data env g p False
   \<and> (load_data env g p False = (evs, Inr (gts, preds)) \<longrightarrow>
        map (read_coords_csv env) (sorted_paths (glob_csv env g)) = map Inr gts
      \<and> map (read_coords_csv env) (sorted_paths (glob_csv env p)) = map Inr preds
      \<and> evs = map ReadCoordsCsv (sorted_paths (glob_csv env g) @ sorted_paths (glob_csv env p)))
   \<and> ReadCoordsCsv3d f \<notin> set (fst (main env given))
   \<and> ReadCoordsCsv3d f \<notin> set (fst (main_body env a))
   \<and> (\<exists>evs'. fst (main_body env a)
          = fst (load_data env (ground_truth a) (predictions a) False) @ evs')"
proof -
  have ld: "\<And>g p. load_data (env\<lparr>read_coords_csv3d := r\<rparr>) g p False = load_data env g p False"
    by (simp add: load_data_def Let_def glob_csv_def read_coords_fn_def)
  have mb: "\<And>a. main_body (env\<lparr>read_coords_csv3d := r\<rparr>) a = main_body env a"
    by (simp add: main_body_def Let_def ld write_outfile_reader3d
        split: prod.splits sum.splits option.splits)
  have mn: "main (env\<lparr>read_coords_csv3d := r\<rparr>) given = main env given"
    by (simp add: main_def mb split: sum.splits)
  have 1: "ReadCoordsCsv3d f \<notin> set (fst (main_body env a))"
    using main_body_events [of env a] by (auto split: option.splits)
  have 2: "ReadCoordsCsv3d f \<notin> set (fst (main env given))"
    using main_events [of env given] by (auto split: option.splits sum.splits)
  have 3: "\<exists>evs'. fst (main_body env a)
      = fst (load_data env (ground_truth a) (predictions a) False) @ evs'"
    by (auto simp: main_body_def Let_def split: prod.splits sum.splits option.splits)
  have 4: "map (read_coords_csv env) (sorted_paths (glob_csv env g)) = map Inr gts
      \<and> map (read_coords_csv env) (sorted_paths (glob_csv env p)) = map Inr preds
      \<and> evs = map ReadCoordsCsv (sorted_paths (glob_csv env g) @ sorted_paths (glob_csv env p))"
    if ok: "load_data env g p False = (evs, Inr (gts, preds))"
  proof -
    let ?G = "sorted_paths (glob_csv env g)"
    let ?P = "sorted_paths (glob_csv env p)"
    obtain l1 r1 where r1: "read_all (read_coords_csv env) ReadCoordsCsv ?G = (l1, r1)"
      by (cases "read_all (read_coords_csv env) ReadCoordsCsv ?G")
    obtain l2 r2 where r2: "read_all (read_coords_csv env) ReadCoordsCsv ?P = (l2, r2)"
      by (cases "read_all (read_coords_csv env) ReadCoordsCsv ?P")
    from ok r1 r2 have "r1 = Inr gts \<and> r2 = Inr preds \<and> evs = l1 @ l2"
      by (auto simp: load_data_def Let_def read_coords_fn_def read_event_def
          split: if_splits sum.splits)
    with r1 r2 read_all_Inr [of "read_coords_csv env" ReadCoordsCsv ?G l1 gts]
      read_all_Inr [of "read_coords_csv env" ReadCoordsCsv ?P l2 preds]
    show ?thesis by simp
  qed
  show ?thesis
    using 1 2 3 4 by (simp add: ld mb mn)
qed

theorem main_reads_2d_only_witness:
  "main ((example_env [''b.csv'', ''a.csv'', ''notes.txt''] [''a_predict.csv'', ''b_predict.csv''])
           \<lparr>read_coords_csv3d := failing_reader\<rparr>)
        [GroundTruth ''gt'', Predictions ''pred'']
     = ([ReadCoordsCsv (Path ''gt'' ''a.csv''), ReadCoordsCsv (Path ''gt'' ''b.csv''),
         ReadCoordsCsv (Path ''pred'' ''a_predict.csv''), ReadCoordsCsv (Path ''pred'' ''b_predict.csv''),
         PointsMatchingDataset 3 True],
        Inr ([''2d:a.csv'', ''2d:b.csv''], [''2d:a_predict.csv'', ''2d:b_predict.csv''], 3, True))
   \<and> load_data ((example_env [''b.csv'', ''a.csv'', ''notes.txt''] [''a_predict.csv'', ''b_predict.csv''])
           \<lparr>read_coords_csv3d := failing_reader\<rparr>) ''gt'' ''pred'' True
     = ([ReadCoordsCsv3d (Path ''gt'' ''a.csv'')], Inl (LibraryError ''3d''))"
proof -
  let ?E = "example_env [''b.csv'', ''a.csv'', ''notes.txt''] [''a_predict.csv'', ''b_predict.csv'']"
  let ?g = "[GroundTruth ''gt'', Predictions ''pred'']"
  have m: "main ?E ?g
     = ([ReadCoordsCsv (Path ''gt'' ''a.csv''), ReadCoordsCsv (Path ''gt'' ''b.csv''),
         ReadCoordsCsv (Path ''pred'' ''a_predict.csv''), ReadCoordsCsv (Path ''pred'' ''b_predict.csv''),
         PointsMatchingDataset 3 True],
        Inr ([''2d:a.csv'', ''2d:b.csv''], [''2d:a_predict.csv'', ''2d:b_predict.csv''], 3, True))"
    by code_simp
  have l: "load_data (?E\<lparr>read_coords_csv3d := failing_reader\<rparr>) ''gt'' ''pred'' True
     = ([ReadCoordsCsv3d (Path ''gt'' ''a.csv'')], Inl (LibraryError ''3d''))"
    by code_simp
  have e: "main (?E\<lparr>read_coords_csv3d := failing_reader\<rparr>) ?g = main ?E ?g"
    using main_reads_2d_only [where env = ?E and r = failing_reader and given = ?g] by blast
  show ?thesis using m l e by simp
qed

subsection \<open>The aggregation policy\<close>



subsection \<open>The default cutoff\<close>

text \<open>
  Claim C7. When no \<^verbatim>\<open>--cutoff\<close> option is given, the parsed cutoff is 3.0 and the
  matching uses it: when the loader returns, the outcome of the entry point is that of
  the engine called on the loaded arrays with cutoff distance 3.0 (its error when it
  raises, its metrics after the output step when it returns); adding a \<^verbatim>\<open>--cutoff\<close>
  option whose value \<^verbatim>\<open>float\<close> reads as 3.0 changes neither the result nor the log;
  every call of the engine in the log has cutoff 3.0.
\<close>

theorem cutoff_defaults_to_3:
  assumes "\<not> list_ex is_Cutoff given"
  shows "(parse_args (float_of_string env) given = Inr a \<longrightarrow> cutoff a = 3)
    \<and> (parse_args (float_of_string env) given = Inr a
       \<and> load_data env (ground_truth a) (predictions a) False = (log1, Inr (gts, preds))
       \<and> points_matching_dataset env gts preds 3 True = Inl e
       \<longrightarrow> main env given = (log1 @ [PointsMatchingDataset 3 True], Inl e))
    \<and> (parse_args (float_of_string env) given = Inr a
       \<and> load_data env (ground_truth a) (predictions a) False = (log1, Inr (gts, preds))
       \<and> points_matching_dataset env gts preds 3 True = Inr m
       \<and> data_frame env m = None
       \<longrightarrow> main env given =
           (log1 @ [PointsMatchingDataset 3 True] @ fst (write_outfile env m (outfile a)),
            case snd (write_outfile env m (outfile a)) of Inl e' \<Rightarrow> Inl e' | Inr u \<Rightarrow> Inr m))
    \<and> (float_of_string env s = Some 3 \<longrightarrow> main env (given @ [Cutoff s]) = main env given)
    \<and> (PointsMatchingDataset c b \<in> set (fst (main env given)) \<longrightarrow> c = 3)"
proof -
  have 1: "parse_args (float_of_string env) given = Inr a \<Longrightarrow> cutoff a = 3"
    using assms by (rule parse_args_cutoff)
  have 2: "PointsMatchingDataset c b \<in> set (fst (main env given)) \<Longrightarrow> c = 3"
  proof (cases "parse_args (float_of_string env) given")
    case (Inl e)
    assume "PointsMatchingDataset c b \<in> set (fst (main env given))"
    with Inl show ?thesis by (simp add: main_def)
  next
    case (Inr a')
    assume "PointsMatchingDataset c b \<in> set (fst (main env given))"
    with Inr main_events [of env given] have "c = cutoff a'"
      by (auto split: option.splits)
    with parse_args_cutoff [OF assms Inr] show ?thesis by simp
  qed
  have 3: "parse_args (float_of_string env) given = Inr a \<Longrightarrow>
      load_data env (ground_truth a) (predictions a) False = (log1, Inr (gts, preds)) \<Longrightarrow>
      points_matching_dataset env gts preds 3 True = Inl e \<Longrightarrow>
      main env given = (log1 @ [PointsMatchingDataset 3 True], Inl e)"
    using 1 by (simp add: main_def main_body_def)
  have 4: "parse_args (float_of_string env) given = Inr a \<Longrightarrow>
      load_data env (ground_truth a) (predictions a) False = (log1, Inr (gts, preds)) \<Longrightarrow>
      points_matching_dataset env gts preds 3 True = Inr m \<Longrightarrow>
      data_frame env m = None \<Longrightarrow>
      main env given =
        (log1 @ [PointsMatchingDataset 3 True] @ fst (write_outfile env m (outfile a)),
         case snd (write_outfile env m (outfile a)) of Inl e' \<Rightarrow> Inl e' | Inr u \<Rightarrow> Inr m)"
    using 1 by (simp add: main_def main_body_def split: prod.splits sum.splits)
  have 5: "float_of_string env s = Some 3 \<Longrightarrow> main env (given @ [Cutoff s]) = main env given"
    using parse_args_append_default [OF assms, of "float_of_string env" s] by (simp add: main_def)
  show ?thesis using 1 2 3 4 5 by blast
qed

theorem cutoff_defaults_to_3_witness:
  "\<not> list_ex is_Cutoff [GroundTruth ''gt'', Predictions ''pred'']
   \<and> parse_args (float_of_string (example_env [''a.csv''] [''a_predict.csv'']))
        [GroundTruth ''gt'', Predictions ''pred'']
       = Inr \<lparr>ground_truth = ''gt'', predictions = ''pred'', outfile = None, cutoff = 3\<rparr>
   \<and> load_data (example_env [''a.csv''] [''a_predict.csv'']) ''gt'' ''pred'' False
       = ([ReadCoordsCsv (Path ''gt'' ''a.csv''), ReadCoordsCsv (Path ''pred'' ''a_predict.csv'')],
          Inr ([''2d:a.csv''], [''2d:a_predict.csv'']))
   \<and> points_matching_dataset (example_env [''a.csv''] [''a_predict.csv''])
        [''2d:a.csv''] [''2d:a_predict.csv''] 3 True
       = Inr ([''2d:a.csv''], [''2d:a_predict.csv''], 3, True)
   \<and> main (example_env [''a.csv''] [''a_predict.csv'']) [GroundTruth ''gt'', Predictions ''pred'']
       = ([ReadCoordsCsv (Path ''gt'' ''a.csv''), ReadCoordsCsv (Path ''pred'' ''a_predict.csv''),
           PointsMatchingDataset 3 True],
          Inr ([''2d:a.csv''], [''2d:a_predict.csv''], 3, True))
   \<and> float_of_string (example_env [''a.csv''] [''a_predict.csv'']) ''3.0'' = Some 3
   \<and> main (example_env [''a.csv''] [''a_predict.csv''])
        [GroundTruth ''gt'', Predictions ''pred'', Cutoff ''3.0'']
       = ([ReadCoordsCsv (Path ''gt'' ''a.csv''), ReadCoordsCsv (Path ''pred'' ''a_predict.csv''),
           PointsMatchingDataset 3 True],
          Inr ([''2d:a.csv''], [''2d:a_predict.csv''], 3, True))"
proof -
  let ?E = "example_env [''a.csv''] [''a_predict.csv'']"
  let ?g = "[GroundTruth ''gt'', Predictions ''pred'']"
  let ?a = "\<lparr>ground_truth = ''gt'', predictions = ''pred'', outfile = None, cutoff = 3\<rparr>"
  let ?log = "[ReadCoordsCsv (Path ''gt'' ''a.csv''), ReadCoordsCsv (Path ''pred'' ''a_predict.csv'')]"
  let ?m = "([''2d:a.csv''], [''2d:a_predict.csv''], 3::real, True)"
  have h: "\<not> list_ex is_Cutoff ?g" by simp
  have p: "parse_args (float_of_string ?E) ?g = Inr ?a"
    by (simp add: parse_args_def defaults_def)
  have l: "load_data ?E ''gt'' ''pred'' False
      = (?log, Inr ([''2d:a.csv''], [''2d:a_predict.csv'']))"
    by code_simp
  have l': "load_data ?E (ground_truth ?a) (predictions ?a) False
      = (?log, Inr ([''2d:a.csv''], [''2d:a_predict.csv'']))"
    using l by simp
  have g: "points_matching_dataset ?E [''2d:a.csv''] [''2d:a_predict.csv''] 3 True = Inr ?m"
    by (simp add: example_env_def)
  have d: "data_frame ?E ?m = None" by (simp add: example_env_def)
  have fl: "float_of_string ?E ''3.0'' = Some 3"
    by (simp add: example_env_def example_float_def)
  note t = cutoff_defaults_to_3 [OF h, where env = ?E and a = ?a and ?log1.0 = ?log
      and gts = "[''2d:a.csv'']" and preds = "[''2d:a_predict.csv'']" and m = ?m and s = "''3.0''"]
  have m: "main ?E ?g = (?log @ [PointsMatchingDataset 3 True] @ fst (write_outfile ?E ?m (outfile ?a)),
      case snd (write_outfile ?E ?m (outfile ?a)) of Inl e' \<Rightarrow> Inl e' | Inr u \<Rightarrow> Inr ?m)"
    using t p l' g d by blast
  then have m': "main ?E ?g = (?log @ [PointsMatchingDataset 3 True], Inr ?m)"
    by (simp add: write_outfile_def)
  have ap: "main ?E (?g @ [Cutoff ''3.0'']) = main ?E ?g"
    using t fl by blast
  have mc: "main ?E ?g = (?log @ [PointsMatchingDataset 3 True], Inr ?m)"
    by code_simp
  have mc': "main ?E [GroundTruth ''gt'', Predictions ''pred'', Cutoff ''3.0'']
      = (?log @ [PointsMatchingDataset 3 True], Inr ?m)"
    by code_simp
  show ?thesis using h p l g m' mc mc' fl ap by simp
qed

subsection \<open>The output file\<close>

text \<open>
  Claim C9. When \<^verbatim>\<open>args.outfile\<close> is \<^verbatim>\<open>None\<close>, the log of the entry point holds no
  creation of a directory and no write of a file, and when the loader and the engine
  return and the table is built, the entry point ends after the call of the engine
  with the metrics record computed. The same holds of a command line with no \<^verbatim>\<open>--outfile\<close> option. A
  directory creation or a file write in the log is that of the given output path.
\<close>

theorem no_outfile_no_write:
  "(outfile a = None \<longrightarrow>
      MkdirParents f \<notin> set (fst (main_body env a))
    \<and> ToCsv f \<notin> set (fst (main_body env a))
    \<and> (load_data env (ground_truth a) (predictions a) False = (log1, Inr (gts, preds))
       \<and> points_matching_dataset env gts preds (cutoff a) True = Inr m
       \<and> data_frame env m = None
       \<longrightarrow> main_body env a = (log1 @ [PointsMatchingDataset (cutoff a) True], Inr m)))
   \<and> (\<not> list_ex is_Outfile given \<longrightarrow>
      MkdirParents f \<notin> set (fst (main env given)) \<and> ToCsv f \<notin> set (fst (main env given)))
   \<and> (MkdirParents f \<in> set (fst (main_body env a)) \<or> ToCsv f \<in> set (fst (main_body env a))
      \<longrightarrow> outfile a = Some f)"
proof -
  have 1: "outfile a = None \<Longrightarrow>
      MkdirParents f \<notin> set (fst (main_body env a)) \<and> ToCsv f \<notin> set (fst (main_body env a))"
    using main_body_events [of env a] by auto
  have 2: "outfile a = None \<Longrightarrow>
      load_data env (ground_truth a) (predictions a) False = (log1, Inr (gts, preds)) \<Longrightarrow>
      points_matching_dataset env gts preds (cutoff a) True = Inr m \<Longrightarrow>
      data_frame env m = None \<Longrightarrow>
      main_body env a = (log1 @ [PointsMatchingDataset (cutoff a) True], Inr m)"
    by (simp add: main_body_def write_outfile_def)
  have 3: "\<not> list_ex is_Outfile given \<Longrightarrow>
      MkdirParents f \<notin> set (fst (main env given)) \<and> ToCsv f \<notin> set (fst (main env given))"
  proof (cases "parse_args (float_of_string env) given")
    case (Inl e)
    then show ?thesis by (simp add: main_def)
  next
    case (Inr a')
    assume "\<not> list_ex is_Outfile given"
    then have "outfile a' = None" using Inr by (rule parse_args_outfile)
    with Inr main_events [of env given] show ?thesis by auto
  qed
  have 4: "MkdirParents f \<in> set (fst (main_body env a)) \<or> ToCsv f \<in> set (fst (main_body env a))
      \<Longrightarrow> outfile a = Some f"
    using main_body_events [of env a] by (auto split: option.splits)
  show ?thesis using 1 2 3 4 by blast
qed

theorem no_outfile_no_write_witness:
  "main (example_env [''a.csv''] [''a_predict.csv'']) [GroundTruth ''gt'', Predictions ''pred'']
     = ([ReadCoordsCsv (Path ''gt'' ''a.csv''), ReadCoordsCsv (Path ''pred'' ''a_predict.csv''),
         PointsMatchingDataset 3 True],
        Inr ([''2d:a.csv''], [''2d:a_predict.csv''], 3, True))
   \<and> MkdirParents ''out/m.csv''
       \<notin> set (fst (main (example_env [''a.csv''] [''a_predict.csv''])
            [GroundTruth ''gt'', Predictions ''pred'']))
   \<and> ToCsv ''out/m.csv''
       \<notin> set (fst (main (example_env [''a.csv''] [''a_predict.csv''])
            [GroundTruth ''gt'', Predictions ''pred'']))
   \<and> main (example_env [''a.csv''] [''a_predict.csv''])
        [GroundTruth ''gt'', Predictions ''pred'', Outfile ''out/m.csv'']
     = ([ReadCoordsCsv (Path ''gt'' ''a.csv''), ReadCoordsCsv (Path ''pred'' ''a_predict.csv''),
         PointsMatchingDataset 3 True, MkdirParents ''out/m.csv'', ToCsv ''out/m.csv''],
        Inr ([''2d:a.csv''], [''2d:a_predict.csv''], 3, True))"
proof -
  let ?E = "example_env [''a.csv''] [''a_predict.csv'']"
  let ?g = "[GroundTruth ''gt'', Predictions ''pred'']"
  have h: "\<not> list_ex is_Outfile ?g" by simp
  have m: "main ?E ?g
      = ([ReadCoordsCsv (Path ''gt'' ''a.csv''), ReadCoordsCsv (Path ''pred'' ''a_predict.csv''),
          PointsMatchingDataset 3 True],
         Inr ([''2d:a.csv''], [''2d:a_predict.csv''], 3, True))"
    by code_simp
  have w: "main ?E [GroundTruth ''gt'', Predictions ''pred'', Outfile ''out/m.csv'']
      = ([ReadCoordsCsv (Path ''gt'' ''a.csv''), ReadCoordsCsv (Path ''pred'' ''a_predict.csv''),
          PointsMatchingDataset 3 True, MkdirParents ''out/m.csv'', ToCsv ''out/m.csv''],
         Inr ([''2d:a.csv''], [''2d:a_predict.csv''], 3, True))"
    by code_simp
  have n: "MkdirParents ''out/m.csv'' \<notin> set (fst (main ?E ?g))
      \<and> ToCsv ''out/m.csv'' \<notin> set (fst (main ?E ?g))"
    using h no_outfile_no_write [of _ "''out/m.csv''" ?E _ _ _ _ ?g] by blast
  show ?thesis using m w n by blast
qed

section \<open>Properties of the engine of the specification\<close>

lemma matcher_within_cutoff:
  "ij \<in> set (matcher solve D c) \<Longrightarrow>
     fst ij < length D \<and> snd ij < length (D ! fst ij) \<and> D ! fst ij ! snd ij < c"
  by (auto simp: matcher_def matchable_def split: prod.splits)

lemma metrics_counts:
  "tp (metrics g p m D) = int (length m)"
  "fn (metrics g p m D) = int g - int (length m)"
  "fp (metrics g p m D) = int p - int (length m)"
  by (simp_all add: metrics_def Let_def)

text \<open>
  Claim C4. For every sample whose points share one dimensionality, the pipeline
  returns, and its result satisfies TP + FN = |gt| and TP + FP = |pred|, with TP the
  number of matched pairs; every matched pair is a pair of indices of the two
  coordinate sets whose Euclidean distance is strictly less than the cutoff. This
  holds for every solver.
\<close>

theorem sample_invariants:
  assumes "uniform_dim (gt @ pred)"
  shows "\<exists>m r. sample_pipeline solve c gt pred = Inr (m, r)
    \<and> tp r = int (length m)
    \<and> tp r + fn r = int (length gt)
    \<and> tp r + fp r = int (length pred)
    \<and> (\<forall>ij \<in> set m. fst ij < length gt \<and> snd ij < length pred
          \<and> euclid (gt ! fst ij) (pred ! snd ij) < c)"
proof -
  let ?D = "map (\<lambda>g. map (euclid g) pred) gt"
  let ?m = "matcher solve ?D c"
  let ?r = "metrics (length gt) (length pred) ?m ?D"
  have d: "distances gt pred = Inr ?D"
    using assms by (simp add: distances_def)
  have p: "sample_pipeline solve c gt pred = Inr (?m, ?r)"
    by (simp add: sample_pipeline_def d Let_def)
  have w: "\<forall>ij \<in> set ?m. fst ij < length gt \<and> snd ij < length pred
      \<and> euclid (gt ! fst ij) (pred ! snd ij) < c"
  proof
    fix ij assume "ij \<in> set ?m"
    from matcher_within_cutoff [OF this]
    have i: "fst ij < length ?D" and j: "snd ij < length (?D ! fst ij)"
      and l: "?D ! fst ij ! snd ij < c" by blast+
    have i': "fst ij < length gt" using i by simp
    have row: "?D ! fst ij = map (euclid (gt ! fst ij)) pred" using i' by simp
    have j': "snd ij < length pred" using j by (simp add: row)
    have "euclid (gt ! fst ij) (pred ! snd ij) < c" using l j' by (simp add: row)
    with i' j' show "fst ij < length gt \<and> snd ij < length pred
      \<and> euclid (gt ! fst ij) (pred ! snd ij) < c" by simp
  qed
  show ?thesis using p w by (simp add: metrics_counts)
qed

theorem sample_invariants_witness:
  "uniform_dim ([[0, 0], [10, 10]] @ [[0, 0], [13, 14]])
   \<and> (\<exists>r. sample_pipeline example_solver 3 [[0, 0], [10, 10]] [[0, 0], [13, 14]] = Inr ([(0, 0)], r)
        \<and> tp r = 1 \<and> fn r = 1 \<and> fp r = 1)"
proof -
  have h: "uniform_dim ([[0, 0], [10, 10]] @ [[0, 0], [13, 14::real]])"
    by (simp add: uniform_dim_def)
  have e0: "euclid [0, 0] [0, 0] = 0" by (simp add: euclid_def)
  have e1: "euclid [10, 10] [13, 14] = 5" by (simp add: euclid_def)
  have m: "matcher example_solver
      [[euclid [0, 0] [0, 0], euclid [0, 0] [13, 14]],
       [euclid [10, 10] [0, 0], euclid [10, 10] [13, 14]]] 3 = [(0, 0)]"
    by (simp add: matcher_def matchable_def example_solver_def e0 e1)
  have p: "fst (projr (sample_pipeline example_solver 3 [[0, 0], [10, 10]] [[0, 0], [13, 14]]))
      = [(0, 0)]"
    using h by (simp add: sample_pipeline_def distances_def Let_def m)
  show ?thesis
    using h p sample_invariants [OF h, of example_solver 3] by auto
qed

end
